theory Spec2Isabelle
  imports Complex_Main
begin

section \<open>Eligibility engine: the trigger function calculate_eligibility\<close>

text \<open>
  The trigger function \<^verbatim>\<open>calculate_eligibility\<close> of \<^verbatim>\<open>supabase-schema.sql\<close> rewrites
  the row \<^verbatim>\<open>NEW\<close> of table \<^verbatim>\<open>students\<close>. The row is a record of nullable columns
  (\<open>None\<close> is SQL's NULL; a BEFORE trigger runs before the NOT NULL checks, and the
  function itself tests \<^verbatim>\<open>date_of_birth IS NOT NULL\<close>). DECIMAL columns and variables
  are exact rationals (the rounding and the range check of a DECIMAL(6,2) column on
  assignment are not modelled), INTEGER columns are integers, a DATE is a calendar triple.
  \<^verbatim>\<open>CURRENT_DATE\<close> is the parameter \<open>today\<close>. The last two assignments of the function
  (\<^verbatim>\<open>data_retention_until\<close>, \<^verbatim>\<open>updated_at\<close>) touch no column read or written by the
  rest of the function and are left out, with the columns they concern.
\<close>

datatype pathway_type = P1_RED | P2_GREEN

datatype eligibility_status_type =
  ELIGIBLE | PENDING_HOURS | PENDING_TENURE | PENDING_ASSESSMENTS | NOT_ELIGIBLE

record sqldate =
  year :: int
  month :: int
  day :: int

record student =
  date_of_birth :: "sqldate option"
  licence_expiry_date :: "sqldate option"
  licence_issue_date :: "sqldate option"
  age_at_issue :: "int option"
  pathway :: "pathway_type option"
  supervised_hours :: "rat option"
  professional_hours :: "rat option"
  night_hours :: "rat option"
  safer_driver_credit :: "bool option"
  vru_credit :: "bool option"
  first_aid_credit :: "bool option"
  total_hours :: "rat option"
  hours_required :: "int option"
  hours_remaining :: "rat option"
  cbta_completed :: "bool option"
  assessment_1_22_completed :: "bool option"
  tenure_start_date :: "sqldate option"
  tenure_months_required :: "int option"
  earliest_eligible_date :: "sqldate option"
  eligibility_status :: "eligibility_status_type option"

subsection \<open>SQL helpers\<close>

text \<open>\<^verbatim>\<open>COALESCE(x, d)\<close>.\<close>

definition COALESCE :: "'a option \<Rightarrow> 'a \<Rightarrow> 'a" where
  "COALESCE x d = (case x of Some v \<Rightarrow> v | None \<Rightarrow> d)"

text \<open>
  A boolean column used as a condition (\<^verbatim>\<open>CASE WHEN c\<close>, \<^verbatim>\<open>c = TRUE\<close> inside IF): in
  SQL's three-valued logic the branch is taken only when the condition is true, so NULL
  behaves as not taken. \<^verbatim>\<open>c = FALSE\<close> is true only for a stored FALSE.
\<close>

definition is_true :: "bool option \<Rightarrow> bool" where
  "is_true c = (c = Some True)"

definition is_false :: "bool option \<Rightarrow> bool" where
  "is_false c = (c = Some False)"

text \<open>Comparison of two dates.\<close>

definition date_less :: "sqldate \<Rightarrow> sqldate \<Rightarrow> bool" where
  "date_less a b =
     (year a < year b \<or> (year a = year b \<and>
        (month a < month b \<or> (month a = month b \<and> day a < day b))))"

definition date_ge :: "sqldate \<Rightarrow> sqldate \<Rightarrow> bool" where
  "date_ge a b = (\<not> date_less a b)"

text \<open>C's integer division and remainder (truncating), as PostgreSQL's date code uses.\<close>

definition c_div :: "int \<Rightarrow> int \<Rightarrow> int" where
  "c_div a b = sgn a * sgn b * (\<bar>a\<bar> div \<bar>b\<bar>)"

definition c_mod :: "int \<Rightarrow> int \<Rightarrow> int" where
  "c_mod a b = sgn a * (\<bar>a\<bar> mod \<bar>b\<bar>)"

definition isleap :: "int \<Rightarrow> bool" where
  "isleap y = (c_mod y 4 = 0 \<and> (c_mod y 100 \<noteq> 0 \<or> c_mod y 400 = 0))"

text \<open>\<^verbatim>\<open>day_tab[isleap(y)][m - 1]\<close>.\<close>

definition day_tab :: "int \<Rightarrow> int \<Rightarrow> int" where
  "day_tab y m =
     (if m = 2 then (if isleap y then 29 else 28)
      else if m = 4 \<or> m = 6 \<or> m = 9 \<or> m = 11 then 30 else 31)"

text \<open>
  \<^verbatim>\<open>date + n months\<close> (PostgreSQL's \<^verbatim>\<open>timestamp_pl_interval\<close>, read back as a date): the
  month is moved, the year carried, and the day cut to the last day of the new month.
\<close>

definition add_months :: "sqldate \<Rightarrow> int \<Rightarrow> sqldate" where
  "add_months d n =
     (let m0 = month d + n;
          y = (if m0 > 12 then year d + c_div (m0 - 1) 12
               else if m0 < 1 then year d + c_div m0 12 - 1 else year d);
          m = (if m0 > 12 then c_mod (m0 - 1) 12 + 1
               else if m0 < 1 then c_mod m0 12 + 12 else m0)
      in \<lparr> year = y, month = m, day = (if day d > day_tab y m then day_tab y m else day d) \<rparr>)"

text \<open>
  \<^verbatim>\<open>EXTRACT(YEAR FROM AGE(a, b))\<close> (PostgreSQL's \<^verbatim>\<open>timestamp_age\<close>): the field-wise
  difference, negated when \<open>a\<close> is before \<open>b\<close>, with a negative day borrowing a month
  and a negative month borrowing a year (once each, which is all a calendar date needs),
  and the sign restored at the end.
\<close>

definition age_years :: "sqldate \<Rightarrow> sqldate \<Rightarrow> int" where
  "age_years a b =
     (let neg = date_less a b;
          sg = (if neg then - 1 else 1);
          dy = sg * (year a - year b);
          dm = sg * (month a - month b);
          dd = sg * (day a - day b);
          dm1 = (if dd < 0 then dm - 1 else dm);
          dy1 = (if dm1 < 0 then dy - 1 else dy)
      in sg * dy1)"

subsection \<open>The function\<close>

text \<open>Lines 465-469: the issue date, from the expiry date (a five-year licence).\<close>

definition set_issue_date :: "student \<Rightarrow> student" where
  "set_issue_date NEW =
     (case licence_expiry_date NEW of
        Some e \<Rightarrow> NEW\<lparr> licence_issue_date := Some (add_months e (- 60)) \<rparr>
      | None \<Rightarrow> NEW)"

text \<open>Lines 471-485: age at issue, pathway and the pathway's thresholds.\<close>

definition v_age_at_issue :: "student \<Rightarrow> int option" where
  "v_age_at_issue NEW =
     (case (date_of_birth NEW, licence_issue_date NEW) of
        (Some b, Some i) \<Rightarrow> Some (age_years i b)
      | _ \<Rightarrow> None)"

definition set_pathway :: "student \<Rightarrow> student" where
  "set_pathway NEW =
     (case v_age_at_issue NEW of
        Some a \<Rightarrow>
          NEW\<lparr> age_at_issue := Some a,
               pathway := Some (if a < 25 then P1_RED else P2_GREEN),
               hours_required := Some (if a < 25 then 100 else 50),
               tenure_months_required := Some (if a < 25 then 12 else 6) \<rparr>
      | None \<Rightarrow> NEW)"

text \<open>\<^verbatim>\<open>v_night_req\<close>, with its default of line 505.\<close>

definition v_night_req :: "student \<Rightarrow> rat" where
  "v_night_req NEW =
     (case v_age_at_issue NEW of
        Some a \<Rightarrow> (if a < 25 then 10 else 5)
      | None \<Rightarrow> 10)"

text \<open>Lines 487-493: the credited hours.\<close>

definition v_prof_credit :: "student \<Rightarrow> rat" where
  "v_prof_credit NEW = min (COALESCE (professional_hours NEW) 0) 10 * 3"

definition v_total_hrs :: "student \<Rightarrow> rat" where
  "v_total_hrs NEW =
     v_prof_credit NEW + COALESCE (supervised_hours NEW) 0
       + (if is_true (safer_driver_credit NEW) then 20 else 0)
       + (if is_true (vru_credit NEW) then 10 else 0)
       + (if is_true (first_aid_credit NEW) then 5 else 0)"

text \<open>Lines 495-496.\<close>

definition set_totals :: "student \<Rightarrow> student" where
  "set_totals NEW =
     NEW\<lparr> total_hours := Some (v_total_hrs NEW),
          hours_remaining :=
            Some (max (of_int (COALESCE (hours_required NEW) 100) - v_total_hrs NEW) 0) \<rparr>"

text \<open>Lines 498-502: the earliest eligible date; a NULL tenure start leaves the column.\<close>

definition set_earliest :: "student \<Rightarrow> student" where
  "set_earliest NEW =
     (case tenure_start_date NEW of
        Some t \<Rightarrow>
          NEW\<lparr> earliest_eligible_date :=
                 Some (add_months t (COALESCE (tenure_months_required NEW) 12)) \<rparr>
      | None \<Rightarrow> NEW)"

text \<open>
  Lines 507-523: the status. \<open>nreq\<close> is \<^verbatim>\<open>v_night_req\<close>, a local variable of the
  function, \<open>vt\<close> is \<^verbatim>\<open>v_total_hrs\<close>.
\<close>

definition tenure_ok :: "sqldate \<Rightarrow> student \<Rightarrow> bool" where
  "tenure_ok today NEW =
     (case earliest_eligible_date NEW of None \<Rightarrow> True | Some e \<Rightarrow> date_ge today e)"

definition status_of :: "sqldate \<Rightarrow> rat \<Rightarrow> rat \<Rightarrow> student \<Rightarrow> eligibility_status_type" where
  "status_of today vt nreq NEW =
     (if vt \<ge> of_int (COALESCE (hours_required NEW) 100)
         \<and> COALESCE (night_hours NEW) 0 \<ge> nreq
         \<and> is_true (cbta_completed NEW)
         \<and> is_true (assessment_1_22_completed NEW)
         \<and> tenure_ok today NEW
         \<and> COALESCE (age_at_issue NEW) 0 \<ge> 17
      then ELIGIBLE
      else if vt < of_int (COALESCE (hours_required NEW) 100) then PENDING_HOURS
      else if (case earliest_eligible_date NEW of None \<Rightarrow> False | Some e \<Rightarrow> date_less today e)
      then PENDING_TENURE
      else if is_false (cbta_completed NEW) \<or> is_false (assessment_1_22_completed NEW)
      then PENDING_ASSESSMENTS
      else NOT_ELIGIBLE)"

definition calculate_eligibility :: "sqldate \<Rightarrow> student \<Rightarrow> student" where
  "calculate_eligibility today NEW0 =
     (let NEW1 = set_issue_date NEW0;
          NEW2 = set_pathway NEW1;
          NEW3 = set_totals NEW2;
          NEW4 = set_earliest NEW3
      in NEW4\<lparr> eligibility_status :=
                 Some (status_of today (v_total_hrs NEW2) (v_night_req NEW1) NEW4) \<rparr>)"


section \<open>Logbook scanner: the parsers of class LogbookScanner\<close>

text \<open>
  The JavaScript of the scanner module. A string is a list of characters; a field that
  may be \<^verbatim>\<open>null\<close> or absent is an \<open>option\<close>. Numbers are exact: integers where the
  code computes with whole minutes, rationals where it divides (JavaScript computes in
  doubles, which agree with the exact value on the inputs evaluated below). The host's
  time zone is taken to be UTC, so a Date built from local components is its UTC time
  value in milliseconds; \<open>None\<close> stands for NaN and for an Invalid Date.
\<close>

subsection \<open>Characters, parseInt, truthiness\<close>

definition is_digit :: "char \<Rightarrow> bool" where
  "is_digit c = (c \<in> set ''0123456789'')"

definition digit_val :: "char \<Rightarrow> nat" where
  "digit_val c = of_char c - 48"

definition dec_val :: "string \<Rightarrow> nat" where
  "dec_val ds = foldl (\<lambda>n c. 10 * n + digit_val c) 0 ds"

text \<open>The white space \<^verbatim>\<open>parseInt\<close> skips (the ASCII part of it).\<close>

definition is_space :: "char \<Rightarrow> bool" where
  "is_space c = (c \<in> set [CHR 0x09, CHR 0x0A, CHR 0x0B, CHR 0x0C, CHR 0x0D, CHR '' ''])"

definition strip_sign :: "string \<Rightarrow> int \<times> string" where
  "strip_sign t =
     (case t of
        [] \<Rightarrow> (1, [])
      | c # r \<Rightarrow> if c = CHR ''-'' then (- 1, r) else if c = CHR ''+'' then (1, r) else (1, t))"

text \<open>
  \<^verbatim>\<open>parseInt(s, 10)\<close>: leading white space, a sign, then the longest run of digits;
  NaN (\<open>None\<close>) when that run is empty. What follows the digits is ignored.
\<close>

definition parseInt :: "string \<Rightarrow> int option" where
  "parseInt s =
     (let (sg, u) = strip_sign (dropWhile is_space s);
          ds = takeWhile is_digit u
      in if ds = [] then None else Some (sg * int (dec_val ds)))"

text \<open>A string used as a condition: \<^verbatim>\<open>null\<close>, \<^verbatim>\<open>undefined\<close> and \<^verbatim>\<open>""\<close> are falsy.\<close>

definition truthy :: "string option \<Rightarrow> bool" where
  "truthy s = (case s of None \<Rightarrow> False | Some t \<Rightarrow> t \<noteq> [])"

text \<open>A number used as a condition: \<^verbatim>\<open>null\<close> and \<^verbatim>\<open>0\<close> are falsy.\<close>

definition truthy_num :: "rat option \<Rightarrow> bool" where
  "truthy_num n = (case n of None \<Rightarrow> False | Some v \<Rightarrow> v \<noteq> 0)"

subsection \<open>parseTime (lines 444-458)\<close>

text \<open>
  \<^verbatim>\<open>timeStr.match(/(\d{1,2})[:\.](\d{2})/)\<close>. The pattern has no anchors: \<open>time_search\<close>
  returns the two groups of the leftmost match. At one position the greedy
  \<^verbatim>\<open>\d{1,2}\<close> takes two digits first and gives one back when the rest does not match.
\<close>

definition is_time_sep :: "char \<Rightarrow> bool" where
  "is_time_sep c = (c = CHR '':'' \<or> c = CHR ''.'')"

fun time_match_at :: "string \<Rightarrow> (string \<times> string) option" where
  "time_match_at (a # b # c # d # e # r) =
     (if is_digit a \<and> is_digit b \<and> is_time_sep c \<and> is_digit d \<and> is_digit e
      then Some ([a, b], [d, e])
      else if is_digit a \<and> is_time_sep b \<and> is_digit c \<and> is_digit d
      then Some ([a], [c, d])
      else None)"
| "time_match_at [a, b, c, d] =
     (if is_digit a \<and> is_time_sep b \<and> is_digit c \<and> is_digit d
      then Some ([a], [c, d]) else None)"
| "time_match_at _ = None"

fun time_search :: "string \<Rightarrow> (string \<times> string) option" where
  "time_search [] = None"
| "time_search (c # cs) =
     (case time_match_at (c # cs) of Some m \<Rightarrow> Some m | None \<Rightarrow> time_search cs)"

definition parseTime :: "string option \<Rightarrow> int option" where
  "parseTime timeStr =
     (if \<not> truthy timeStr then None
      else case time_search (the timeStr) of
        None \<Rightarrow> None
      | Some (g1, g2) \<Rightarrow>
          (case (parseInt g1, parseInt g2) of
             (Some hours, Some minutes) \<Rightarrow>
               if hours \<ge> 0 \<and> hours \<le> 23 \<and> minutes \<ge> 0 \<and> minutes \<le> 59
               then Some (hours * 60 + minutes) else None
           | _ \<Rightarrow> None))"

subsection \<open>parseDuration (lines 463-479)\<close>

text \<open>
  \<^verbatim>\<open>/(\d+)[:\.](\d{2})/\<close> at one position: the whole run of digits, a separator, two
  digits (a shorter run is followed by a digit, so giving digits back never helps).
\<close>

definition dur_match_at :: "string \<Rightarrow> (string \<times> string) option" where
  "dur_match_at s =
     (let ds = takeWhile is_digit s in
      if ds = [] then None
      else case dropWhile is_digit s of
        c # d # e # r \<Rightarrow>
          if is_time_sep c \<and> is_digit d \<and> is_digit e then Some (ds, [d, e]) else None
      | _ \<Rightarrow> None)"

fun dur_search :: "string \<Rightarrow> (string \<times> string) option" where
  "dur_search [] = None"
| "dur_search (c # cs) =
     (case dur_match_at (c # cs) of Some m \<Rightarrow> Some m | None \<Rightarrow> dur_search cs)"

text \<open>
  \<^verbatim>\<open>/(\d+\.?\d*)/\<close>: the first run of digits, and the digits after a point that follows
  it. The result is the integer part and the fraction digits of the matched text.
\<close>

definition decimal_search :: "string \<Rightarrow> (string \<times> string) option" where
  "decimal_search s =
     (let t = dropWhile (\<lambda>c. \<not> is_digit c) s in
      if t = [] then None
      else Some (takeWhile is_digit t,
        (case dropWhile is_digit t of
           c # r \<Rightarrow> if c = CHR ''.'' then takeWhile is_digit r else []
         | [] \<Rightarrow> [])))"

definition parseFloat_hours :: "string \<Rightarrow> string \<Rightarrow> rat" where
  "parseFloat_hours ip fp = of_nat (dec_val ip) + of_nat (dec_val fp) / 10 ^ length fp"

definition Math_round :: "rat \<Rightarrow> int" where
  "Math_round x = \<lfloor>x + 1 / 2\<rfloor>"

definition parseDuration :: "string option \<Rightarrow> int option" where
  "parseDuration durationStr =
     (if \<not> truthy durationStr then None
      else case dur_search (the durationStr) of
        Some (g1, g2) \<Rightarrow>
          (case (parseInt g1, parseInt g2) of
             (Some h, Some m) \<Rightarrow> Some (h * 60 + m)
           | _ \<Rightarrow> None)
      | None \<Rightarrow>
          (case decimal_search (the durationStr) of
             Some (ip, fp) \<Rightarrow> Some (Math_round (parseFloat_hours ip fp * 60))
           | None \<Rightarrow> None))"

subsection \<open>The Date constructor\<close>

text \<open>
  \<^verbatim>\<open>new Date(year, monthIndex, day)\<close> as ECMAScript defines it: \<open>MakeDay\<close> carries a
  month index outside 0..11 into the year and counts the day from the first of the
  month, so a day past the end of the month lands in the following month; \<open>TimeClip\<close>
  gives NaN beyond 8.64e15 milliseconds.
\<close>

definition msPerDay :: int where
  "msPerDay = 86400000"

definition DayFromYear :: "int \<Rightarrow> int" where
  "DayFromYear y =
     365 * (y - 1970) + (y - 1969) div 4 - (y - 1901) div 100 + (y - 1601) div 400"

definition InLeapYear :: "int \<Rightarrow> bool" where
  "InLeapYear y = (y mod 4 = 0 \<and> (y mod 100 \<noteq> 0 \<or> y mod 400 = 0))"

definition month_start :: "int \<Rightarrow> int \<Rightarrow> int" where
  "month_start y mn =
     [0, 31, 59, 90, 120, 151, 181, 212, 243, 273, 304, 334] ! nat mn
       + (if mn \<ge> 2 \<and> InLeapYear y then 1 else 0)"

definition MakeDay :: "int \<Rightarrow> int \<Rightarrow> int \<Rightarrow> int" where
  "MakeDay y m dt =
     (let ym = y + m div 12; mn = m mod 12
      in DayFromYear ym + month_start ym mn + dt - 1)"

definition TimeClip :: "int \<Rightarrow> int option" where
  "TimeClip t = (if \<bar>t\<bar> > 8640000000000000 then None else Some t)"

definition new_Date :: "int option \<Rightarrow> int option \<Rightarrow> int option \<Rightarrow> int option" where
  "new_Date y m d =
     (case (y, m, d) of
        (Some y', Some m', Some d') \<Rightarrow>
          TimeClip (MakeDay (if 0 \<le> y' \<and> y' \<le> 99 then 1900 + y' else y') m' d' * msPerDay)
      | _ \<Rightarrow> None)"

subsection \<open>parseDate (lines 419-439)\<close>

definition is_date_sep :: "char \<Rightarrow> bool" where
  "is_date_sep c = (c = CHR ''/'' \<or> c = CHR ''-'' \<or> c = CHR ''.'')"

text \<open>\<^verbatim>\<open>dateStr.split(/[\/\-\.]/)\<close>; \<open>cur\<close> is the part being read, reversed.\<close>

fun split_date :: "string \<Rightarrow> string \<Rightarrow> string list" where
  "split_date cur [] = [rev cur]"
| "split_date cur (c # cs) =
     (if is_date_sep c then rev cur # split_date [] cs else split_date (c # cur) cs)"

definition fullYear :: "int \<Rightarrow> int" where
  "fullYear y = (if y < 100 then (if y > 50 then 1900 + y else 2000 + y) else y)"

text \<open>
  A component that \<^verbatim>\<open>parseInt\<close> cannot read is NaN, the Date built from it is invalid,
  and \<^verbatim>\<open>isNaN(date.getTime())\<close> sends the function to its final \<^verbatim>\<open>return null\<close>.
\<close>

definition parseDate :: "string option \<Rightarrow> int option" where
  "parseDate dateStr =
     (if \<not> truthy dateStr then None
      else case split_date [] (the dateStr) of
        [p0, p1, p2] \<Rightarrow>
          new_Date (map_option fullYear (parseInt p2))
                   (map_option (\<lambda>m. m - 1) (parseInt p1))
                   (parseInt p0)
      | _ \<Rightarrow> None)"

section \<open>Logbook scanner: validation and aggregation\<close>

text \<open>
  One extracted row, as the extraction prompt lays it out (lines 154-168). The text
  fields are strings or \<^verbatim>\<open>null\<close>; the odometer readings are numbers or \<^verbatim>\<open>null\<close>.
  The field \<^verbatim>\<open>notes\<close> is \<open>entry_notes\<close> here, the source's name being a reserved
  word of Isabelle.
\<close>

record entry =
  rowNumber :: int
  date :: "string option"
  weather :: "string option"
  supervisorName :: "string option"
  licenceNumber :: "string option"
  startTime :: "string option"
  finishTime :: "string option"
  totalTime :: "string option"
  hasSignature :: bool
  odometerStart :: "rat option"
  odometerFinish :: "rat option"
  confidence :: "string option"
  entry_notes :: "string option"

text \<open>
  The objects pushed on \<^verbatim>\<open>entryErrors\<close> and \<^verbatim>\<open>entryWarnings\<close>, one constructor for
  each \<^verbatim>\<open>push\<close> of the source, carrying the values its message is built from.
\<close>

datatype entry_error =
    DateUnclear
  | TimeUnclear
  | InvalidDateFormat string
  | DateInFuture
  | InvalidStartTime string
  | InvalidFinishTime string
  | SessionTooShort int
  | TimeMismatch int int
  | OdometerFinishLessThanStart

datatype entry_warning =
    TotalTimeUnclear
  | DateUnusuallyOld
  | SessionOverMax int
  | SignatureMissing
  | HighAverageSpeed rat
  | LowConfidence

text \<open>The object pushed on \<^verbatim>\<open>validatedEntries\<close> (lines 359-367).\<close>

record validated_entry = entry +
  parsedDate :: "int option"
  calculatedDuration :: "int option"
  durationMinutes :: "int option"
  errors :: "entry_error list"
  warnings :: "entry_warning list"
  isValid :: bool

subsection \<open>One pass of the loop of validateEntries (lines 241-372)\<close>

text \<open>
  \<open>now\<close> is the time value of \<^verbatim>\<open>new Date()\<close>; \<open>today_end\<close> is \<^verbatim>\<open>today\<close> after
  \<^verbatim>\<open>setHours(23, 59, 59, 999)\<close>. The rules are the numbered steps of the source, each
  giving the errors and the warnings it pushes; \<open>entryErrors\<close> and \<open>entryWarnings\<close>
  put them in the order of the pushes.
\<close>

definition UNCLEAR :: string where
  "UNCLEAR = ''UNCLEAR''"

definition maxSessionHours :: int where
  "maxSessionHours = 2"

definition minSessionMinutes :: int where
  "minSessionMinutes = 5"

definition earliestDate :: int where
  "earliestDate = MakeDay 2020 0 1 * msPerDay"

definition today_end :: "int \<Rightarrow> int" where
  "today_end now = (now div msPerDay) * msPerDay + 86399999"

text \<open>\<^verbatim>\<open>x && x !== 'UNCLEAR'\<close>.\<close>

definition readable :: "string option \<Rightarrow> bool" where
  "readable s = (truthy s \<and> s \<noteq> Some UNCLEAR)"

text \<open>Step 1 (lines 245-254).\<close>

definition unclear_errors :: "entry \<Rightarrow> entry_error list" where
  "unclear_errors e =
     (if date e = Some UNCLEAR then [DateUnclear] else [])
     @ (if startTime e = Some UNCLEAR \<or> finishTime e = Some UNCLEAR then [TimeUnclear] else [])"

definition unclear_warnings :: "entry \<Rightarrow> entry_warning list" where
  "unclear_warnings e = (if totalTime e = Some UNCLEAR then [TotalTimeUnclear] else [])"

text \<open>Step 2 (lines 256-268).\<close>

definition parsed_date :: "entry \<Rightarrow> int option" where
  "parsed_date e = (if readable (date e) then parseDate (date e) else None)"

definition date_errors :: "int \<Rightarrow> entry \<Rightarrow> entry_error list" where
  "date_errors now e =
     (if readable (date e) then
        (case parseDate (date e) of
           None \<Rightarrow> [InvalidDateFormat (the (date e))]
         | Some t \<Rightarrow> if t > today_end now then [DateInFuture] else [])
      else [])"

definition date_warnings :: "int \<Rightarrow> entry \<Rightarrow> entry_warning list" where
  "date_warnings now e =
     (if readable (date e) then
        (case parseDate (date e) of
           None \<Rightarrow> []
         | Some t \<Rightarrow> if t > today_end now then []
                      else if t < earliestDate then [DateUnusuallyOld] else [])
      else [])"

text \<open>Step 3 (lines 270-287).\<close>

definition startMinutes :: "entry \<Rightarrow> int option" where
  "startMinutes e = (if readable (startTime e) then parseTime (startTime e) else None)"

definition finishMinutes :: "entry \<Rightarrow> int option" where
  "finishMinutes e = (if readable (finishTime e) then parseTime (finishTime e) else None)"

definition time_errors :: "entry \<Rightarrow> entry_error list" where
  "time_errors e =
     (if readable (startTime e) \<and> parseTime (startTime e) = None
      then [InvalidStartTime (the (startTime e))] else [])
     @ (if readable (finishTime e) \<and> parseTime (finishTime e) = None
        then [InvalidFinishTime (the (finishTime e))] else [])"

text \<open>Step 4 (lines 289-330): the duration, a finish before the start read as overnight.\<close>

definition calculated_duration :: "entry \<Rightarrow> int option" where
  "calculated_duration e =
     (case (startMinutes e, finishMinutes e) of
        (Some s, Some f) \<Rightarrow> Some ((if f < s then f + 24 * 60 else f) - s)
      | _ \<Rightarrow> None)"

definition duration_errors :: "entry \<Rightarrow> entry_error list" where
  "duration_errors e =
     (case calculated_duration e of
        None \<Rightarrow> []
      | Some d \<Rightarrow>
          (if d < minSessionMinutes then [SessionTooShort d] else [])
          @ (if readable (totalTime e) then
               (case parseDuration (totalTime e) of
                  None \<Rightarrow> []
                | Some r \<Rightarrow> if \<bar>d - r\<bar> > 5 then [TimeMismatch d r] else [])
             else []))"

definition duration_warnings :: "entry \<Rightarrow> entry_warning list" where
  "duration_warnings e =
     (case calculated_duration e of
        None \<Rightarrow> []
      | Some d \<Rightarrow> if d > maxSessionHours * 60 then [SessionOverMax d] else [])"

text \<open>Step 5 (lines 332-335).\<close>

definition signature_warnings :: "entry \<Rightarrow> entry_warning list" where
  "signature_warnings e = (if \<not> hasSignature e then [SignatureMissing] else [])"

text \<open>
  Step 6 (lines 337-351). The guard \<^verbatim>\<open>entry.odometerStart && entry.odometerFinish\<close> and
  the guard \<^verbatim>\<open>calculatedDuration\<close> of the speed check test truthiness.
\<close>

definition odometer_errors :: "entry \<Rightarrow> entry_error list" where
  "odometer_errors e =
     (if truthy_num (odometerStart e) \<and> truthy_num (odometerFinish e) then
        (if the (odometerFinish e) - the (odometerStart e) < 0
         then [OdometerFinishLessThanStart] else [])
      else [])"

definition odometer_warnings :: "entry \<Rightarrow> entry_warning list" where
  "odometer_warnings e =
     (if truthy_num (odometerStart e) \<and> truthy_num (odometerFinish e) then
        (let distance = the (odometerFinish e) - the (odometerStart e) in
         if distance < 0 then []
         else if distance > 200 \<and> calculated_duration e \<noteq> None \<and> calculated_duration e \<noteq> Some 0
         then (let avgSpeed = distance / (of_int (the (calculated_duration e)) / 60)
               in if avgSpeed > 100 then [HighAverageSpeed avgSpeed] else [])
         else [])
      else [])"

text \<open>Step 7 (lines 353-356).\<close>

definition confidence_warnings :: "entry \<Rightarrow> entry_warning list" where
  "confidence_warnings e = (if confidence e = Some ''low'' then [LowConfidence] else [])"

definition entryErrors :: "int \<Rightarrow> entry \<Rightarrow> entry_error list" where
  "entryErrors now e =
     unclear_errors e @ date_errors now e @ time_errors e @ duration_errors e @ odometer_errors e"

definition entryWarnings :: "int \<Rightarrow> entry \<Rightarrow> entry_warning list" where
  "entryWarnings now e =
     unclear_warnings e @ date_warnings now e @ duration_warnings e @ signature_warnings e
       @ odometer_warnings e @ confidence_warnings e"

text \<open>\<^verbatim>\<open>a || b\<close> on numbers: \<open>b\<close> when \<open>a\<close> is \<^verbatim>\<open>null\<close> or \<^verbatim>\<open>0\<close>.\<close>

definition js_or :: "int option \<Rightarrow> int option \<Rightarrow> int option" where
  "js_or a b = (case a of None \<Rightarrow> b | Some v \<Rightarrow> if v = 0 then b else Some v)"

definition validate_entry :: "int \<Rightarrow> entry \<Rightarrow> validated_entry" where
  "validate_entry now e =
     entry.extend e
       \<lparr> parsedDate = parsed_date e,
         calculatedDuration = calculated_duration e,
         durationMinutes = js_or (calculated_duration e) (parseDuration (totalTime e)),
         errors = entryErrors now e,
         warnings = entryWarnings now e,
         isValid = (length (entryErrors now e) = 0) \<rparr>"

subsection \<open>validateEntries (lines 232-414)\<close>

text \<open>
  The extraction result and the scan result. The fields \<^verbatim>\<open>pageTypeInfo\<close>,
  \<^verbatim>\<open>formattedTotal\<close> and \<^verbatim>\<open>scannedAt\<close> of the result are presentation and are left
  out. Fields of the result that share a name with a field of the extraction result or
  of a row carry the prefix \<open>scan_\<close>.
\<close>

record extraction_result =
  pageType :: string
  pageNumber :: "int option"
  entries :: "entry list"
  subtotal :: "string option"
  pageNotes :: "string option"

datatype page_warning = RowWarning int entry_warning | SubtotalMismatch

record page_totals =
  totals_entries :: nat
  validEntries :: nat
  totalMinutes :: int
  totalHours :: rat

record page_scan_result =
  success :: bool
  scan_pageType :: string
  scan_pageNumber :: "int option"
  scan_entries :: "validated_entry list"
  totals :: page_totals
  scan_errors :: "(int \<times> entry_error) list"
  scan_warnings :: "page_warning list"
  hasErrors :: bool
  hasWarnings :: bool
  scan_pageNotes :: "string option"

text \<open>The variables the loop updates, and its body for one entry.\<close>

record loop_state =
  acc_errors :: "(int \<times> entry_error) list"
  acc_warnings :: "page_warning list"
  validatedEntries :: "validated_entry list"
  acc_totalMinutes :: int

definition loop_init :: loop_state where
  "loop_init = \<lparr> acc_errors = [], acc_warnings = [], validatedEntries = [], acc_totalMinutes = 0 \<rparr>"

definition loop_body :: "int \<Rightarrow> loop_state \<Rightarrow> entry \<Rightarrow> loop_state" where
  "loop_body now st e =
     \<lparr> acc_errors = acc_errors st @ map (Pair (rowNumber e)) (entryErrors now e),
       acc_warnings = acc_warnings st @ map (RowWarning (rowNumber e)) (entryWarnings now e),
       validatedEntries = validatedEntries st @ [validate_entry now e],
       acc_totalMinutes =
         (case calculated_duration e of
            Some d \<Rightarrow> acc_totalMinutes st + d
          | None \<Rightarrow> acc_totalMinutes st) \<rparr>"

text \<open>Lines 385-398: the page's own subtotal against \<^verbatim>\<open>totalMinutes\<close>.\<close>

definition subtotal_warnings :: "extraction_result \<Rightarrow> int \<Rightarrow> page_warning list" where
  "subtotal_warnings x tm =
     (if truthy (subtotal x) then
        (case parseDuration (subtotal x) of
           None \<Rightarrow> []
         | Some p \<Rightarrow> if \<bar>tm - p\<bar> > 5 then [SubtotalMismatch] else [])
      else [])"

definition validateEntries :: "int \<Rightarrow> extraction_result \<Rightarrow> page_scan_result" where
  "validateEntries now x =
     (let st = foldl (loop_body now) loop_init (entries x);
          ws = acc_warnings st @ subtotal_warnings x (acc_totalMinutes st)
      in \<lparr> success = True,
           scan_pageType = pageType x,
           scan_pageNumber = pageNumber x,
           scan_entries = validatedEntries st,
           totals = \<lparr> totals_entries = length (validatedEntries st),
                      validEntries = length (filter isValid (validatedEntries st)),
                      totalMinutes = acc_totalMinutes st,
                      totalHours = of_int (acc_totalMinutes st) / 60 \<rparr>,
           scan_errors = acc_errors st,
           scan_warnings = ws,
           hasErrors = (length (acc_errors st) > 0),
           hasWarnings = (length ws > 0),
           scan_pageNotes = pageNotes x \<rparr>)"

subsection \<open>calculateCumulativeHours (lines 494-554)\<close>

text \<open>
  \<open>cumulative_state\<close> is the object \<^verbatim>\<open>totals\<close> the loop updates, \<open>cumulative_hours\<close>
  the nested object returned, flattened (\<open>actualHours\<close>, \<open>creditHours\<close>,
  \<open>first10Credit\<close> and \<open>extraCredit\<close> are the fields of \<^verbatim>\<open>adi\<close>).
\<close>

record cumulative_state =
  blueDayMinutes :: int
  redNightMinutes :: int
  greenAdiMinutes :: int
  adiStampMinutes :: int
  allEntries :: "validated_entry list"
  errorCount :: nat
  warningCount :: nat

record cumulative_hours =
  dayHours :: rat
  nightHours :: rat
  supervised_totalHours :: rat
  actualHours :: rat
  creditHours :: rat
  first10Credit :: rat
  extraCredit :: rat
  grand_actualHours :: rat
  creditedHours :: rat
  totalEntries :: nat
  validation_errorCount :: nat
  validation_warningCount :: nat

text \<open>\<^verbatim>\<open>validEntries.reduce((sum, e) => sum + (e.durationMinutes || 0), 0)\<close>.\<close>

definition valid_minutes :: "page_scan_result \<Rightarrow> int" where
  "valid_minutes scan =
     foldl (\<lambda>sum e. sum + (case durationMinutes e of None \<Rightarrow> 0 | Some d \<Rightarrow> d)) 0
       (filter isValid (scan_entries scan))"

definition cumulative_init :: cumulative_state where
  "cumulative_init = \<lparr> blueDayMinutes = 0, redNightMinutes = 0, greenAdiMinutes = 0,
     adiStampMinutes = 0, allEntries = [], errorCount = 0, warningCount = 0 \<rparr>"

definition cumulative_body :: "cumulative_state \<Rightarrow> page_scan_result \<Rightarrow> cumulative_state" where
  "cumulative_body t scan =
     (let t1 =
        (if scan_pageType scan = ''BLUE_DAY''
         then t\<lparr> blueDayMinutes := blueDayMinutes t + valid_minutes scan \<rparr>
         else if scan_pageType scan = ''RED_NIGHT''
         then t\<lparr> redNightMinutes := redNightMinutes t + valid_minutes scan \<rparr>
         else if scan_pageType scan = ''GREEN_ADI'' \<or> scan_pageType scan = ''ADI_STAMP''
         then t\<lparr> greenAdiMinutes := greenAdiMinutes t + valid_minutes scan \<rparr>
         else t)
      in t1\<lparr> allEntries := allEntries t1 @ scan_entries scan,
              errorCount := errorCount t1 + length (scan_errors scan),
              warningCount := warningCount t1 + length (scan_warnings scan) \<rparr>)"

definition calculateCumulativeHours :: "page_scan_result list \<Rightarrow> cumulative_hours" where
  "calculateCumulativeHours scanResults =
     (let t = foldl cumulative_body cumulative_init scanResults;
          adiActualHours = of_int (greenAdiMinutes t) / 60;
          adiFirst10Credit = min adiActualHours 10 * 3;
          adiExtraCredit = max 0 (adiActualHours - 10);
          adiTotalCredit = adiFirst10Credit + adiExtraCredit
      in \<lparr> dayHours = of_int (blueDayMinutes t) / 60,
           nightHours = of_int (redNightMinutes t) / 60,
           supervised_totalHours = of_int (blueDayMinutes t + redNightMinutes t) / 60,
           actualHours = adiActualHours,
           creditHours = adiTotalCredit,
           first10Credit = adiFirst10Credit,
           extraCredit = adiExtraCredit,
           grand_actualHours =
             of_int (blueDayMinutes t + redNightMinutes t + greenAdiMinutes t) / 60,
           creditedHours =
             of_int (blueDayMinutes t + redNightMinutes t) / 60 + adiTotalCredit,
           totalEntries = length (allEntries t),
           validation_errorCount = errorCount t,
           validation_warningCount = warningCount t \<rparr>)"

subsection \<open>The specification's totals\<close>

text \<open>
  The specification's words (sections 4.3 and 4.4), to compare the code with: the
  minutes of a page are the sum of \<^verbatim>\<open>durationMinutes\<close> over its valid rows, and the
  professional bucket sums the pages of the two professional-instructor types.
\<close>

definition spec_valid_row_minutes :: "page_scan_result \<Rightarrow> int" where
  "spec_valid_row_minutes scan =
     sum_list (map (\<lambda>e. COALESCE (durationMinutes e) 0) (filter isValid (scan_entries scan)))"

definition spec_professional_actual_minutes :: "page_scan_result list \<Rightarrow> int" where
  "spec_professional_actual_minutes scans =
     sum_list (map spec_valid_row_minutes
       (filter (\<lambda>s. scan_pageType s = ''GREEN_ADI'' \<or> scan_pageType s = ''ADI_STAMP'') scans))"

text \<open>
  The specification's \<^verbatim>\<open>parse_clock_time\<close> (section 4.1): the whole text is \<^verbatim>\<open>H:MM\<close>
  or \<^verbatim>\<open>H.MM\<close> with one or two hour digits, hours in 0..23 and minutes in 0..59, and
  the value is hours times 60 plus minutes; anything else fails.
\<close>

fun clock_fields :: "string \<Rightarrow> (string \<times> string) option" where
  "clock_fields [a, c, d, e] =
     (if is_digit a \<and> is_time_sep c \<and> is_digit d \<and> is_digit e
      then Some ([a], [d, e]) else None)"
| "clock_fields [a, b, c, d, e] =
     (if is_digit a \<and> is_digit b \<and> is_time_sep c \<and> is_digit d \<and> is_digit e
      then Some ([a, b], [d, e]) else None)"
| "clock_fields _ = None"

definition spec_parse_clock_time :: "string \<Rightarrow> int option" where
  "spec_parse_clock_time s =
     (case clock_fields s of
        None \<Rightarrow> None
      | Some (h, m) \<Rightarrow>
          if dec_val h \<le> 23 \<and> dec_val m \<le> 59
          then Some (int (dec_val h) * 60 + int (dec_val m)) else None)"



section \<open>Example inputs\<close>

text \<open>
  A student born on 15 June 2005 whose licence expires on 29 February 2028, with 50
  supervised and 12 professional hours, evaluated on 1 June 2024; the same student with
  100 supervised hours and 3 night hours; and the same student with no expiry date and
  an issue date of 1 July 2022.
\<close>

definition student_a :: student where
  "student_a = \<lparr> date_of_birth = Some \<lparr>year = 2005, month = 6, day = 15\<rparr>,
     licence_expiry_date = Some \<lparr>year = 2028, month = 2, day = 29\<rparr>,
     licence_issue_date = Some \<lparr>year = 1990, month = 1, day = 1\<rparr>,
     age_at_issue = None, pathway = None,
     supervised_hours = Some 50, professional_hours = Some 12, night_hours = Some 10,
     safer_driver_credit = Some False, vru_credit = None, first_aid_credit = Some False,
     total_hours = None, hours_required = None, hours_remaining = None,
     cbta_completed = Some True, assessment_1_22_completed = Some True,
     tenure_start_date = Some \<lparr>year = 2023, month = 3, day = 1\<rparr>,
     tenure_months_required = None,
     earliest_eligible_date = None, eligibility_status = None \<rparr>"

definition student_b :: student where
  "student_b = student_a\<lparr> supervised_hours := Some 100, night_hours := Some 3 \<rparr>"

definition student_c :: student where
  "student_c = student_a\<lparr> licence_expiry_date := None,
     licence_issue_date := Some \<lparr>year = 2022, month = 7, day = 1\<rparr> \<rparr>"

text \<open>
  Rows without licence dates, whose stored pathway is red: one with no credited hours
  and a stored requirement of 0 hours; one with 150 credited hours, 3 night hours and a
  stored requirement of 200 hours; the latter with a stored requirement of 120 hours.
\<close>

definition student_d :: student where
  "student_d = \<lparr> date_of_birth = Some \<lparr>year = 2005, month = 6, day = 15\<rparr>,
     licence_expiry_date = None, licence_issue_date = None,
     age_at_issue = Some 18, pathway = Some P1_RED,
     supervised_hours = Some 0, professional_hours = Some 0, night_hours = Some 10,
     safer_driver_credit = Some False, vru_credit = Some False, first_aid_credit = Some False,
     total_hours = None, hours_required = Some 0, hours_remaining = None,
     cbta_completed = Some True, assessment_1_22_completed = Some True,
     tenure_start_date = None, tenure_months_required = None,
     earliest_eligible_date = None, eligibility_status = None \<rparr>"

definition student_e :: student where
  "student_e = student_d\<lparr> supervised_hours := Some 150, night_hours := Some 3,
     hours_required := Some 200 \<rparr>"

definition student_f :: student where
  "student_f = student_e\<lparr> hours_required := Some 120 \<rparr>"

definition date_a :: sqldate where
  "date_a = \<lparr>year = 2024, month = 6, day = 1\<rparr>"

text \<open>
  Logbook rows: a two-hour session on 5 March 2024; a one-hour session whose date is
  illegible; a session that starts and finishes at 10:00 with 1:30 written as its total;
  a session whose finish odometer reads 0. \<open>now_a\<close> is a time on 15 June 2025.
\<close>

definition row2h :: "int \<Rightarrow> entry" where
  "row2h n = \<lparr> rowNumber = n, date = Some ''5/3/24'', weather = None,
     supervisorName = Some ''J Smith'', licenceNumber = Some ''1234567'',
     startTime = Some ''10:00'', finishTime = Some ''12:00'', totalTime = Some ''2:00'',
     hasSignature = True, odometerStart = None, odometerFinish = None,
     confidence = Some ''high'', entry_notes = None \<rparr>"

definition entry_a :: entry where
  "entry_a = (row2h 5)\<lparr> date := Some ''UNCLEAR'', finishTime := Some ''11:00'',
     totalTime := Some ''1:00'' \<rparr>"

definition entry_b :: entry where
  "entry_b = (row2h 1)\<lparr> finishTime := Some ''10:00'', totalTime := Some ''1:30'' \<rparr>"

definition entry_c :: entry where
  "entry_c = (row2h 1)\<lparr> odometerStart := Some 15000, odometerFinish := Some 0 \<rparr>"

definition now_a :: int where
  "now_a = 1750000000000"

definition page_adi :: extraction_result where
  "page_adi = \<lparr> pageType = ''GREEN_ADI'', pageNumber = Some 3,
      entries = [row2h 1, row2h 2, row2h 3, row2h 4, entry_a],
      subtotal = Some ''8:00'', pageNotes = None \<rparr>"

definition page_stamp :: extraction_result where
  "page_stamp = \<lparr> pageType = ''ADI_STAMP'', pageNumber = Some 4,
      entries = [row2h 1, row2h 2],
      subtotal = None, pageNotes = None \<rparr>"

definition scans_a :: "page_scan_result list" where
  "scans_a = [validateEntries now_a page_adi, validateEntries now_a page_stamp]"

section \<open>Lemmas\<close>

subsection \<open>Eligibility engine\<close>


lemmas example_students =
  student_a_def student_b_def student_c_def student_d_def student_e_def student_f_def date_a_def







subsection \<open>Parsers\<close>

lemmas parser_defs =
  parseTime_def parseDuration_def truthy_def is_digit_def is_time_sep_def parseInt_def
  strip_sign_def is_space_def dec_val_def digit_val_def

lemma digit_not_sep: "is_digit c \<Longrightarrow> \<not> is_time_sep c"
  by (auto simp: is_digit_def is_time_sep_def)

lemma digit_not_space: "is_digit c \<Longrightarrow> \<not> is_space c"
  by (auto simp: is_digit_def is_space_def)

lemma digit_not_sign: "is_digit c \<Longrightarrow> c \<noteq> CHR ''-'' \<and> c \<noteq> CHR ''+''"
  by (auto simp: is_digit_def)

text \<open>On a non-empty run of digits \<^verbatim>\<open>parseInt\<close> is the decimal value.\<close>

lemma parseInt_digits:
  assumes "ds \<noteq> []" and "\<forall>c \<in> set ds. is_digit c"
  shows "parseInt ds = Some (int (dec_val ds))"
proof -
  obtain c r where ds: "ds = c # r"
    using assms(1) by (cases ds) auto
  have c: "is_digit c"
    using assms(2) ds by simp
  have skip: "dropWhile is_space ds = ds"
    using c ds by (simp add: digit_not_space)
  have sign: "strip_sign ds = (1, ds)"
    using c ds digit_not_sign[of c] by (simp add: strip_sign_def)
  have run: "takeWhile is_digit ds = ds"
    using assms(2) by (simp add: takeWhile_eq_all_conv)
  show ?thesis
    using assms(1) by (simp add: parseInt_def skip sign run)
qed

text \<open>A match of the time pattern is a token of the clock form, inside the text.\<close>

lemma time_match_at_shape:
  assumes "time_match_at s = Some (g1, g2)"
  shows "\<exists>sep post. s = g1 @ sep # g2 @ post \<and> clock_fields (g1 @ sep # g2) = Some (g1, g2)"
  using assms
  by (induction s rule: time_match_at.induct) (auto split: if_splits simp: digit_not_sep)

lemma time_search_shape:
  "time_search s = Some (g1, g2) \<Longrightarrow>
     \<exists>pre sep post. s = pre @ (g1 @ sep # g2) @ post
        \<and> clock_fields (g1 @ sep # g2) = Some (g1, g2)"
proof (induction s)
  case Nil
  then show ?case by simp
next
  case (Cons c cs)
  show ?case
  proof (cases "time_match_at (c # cs)")
    case None
    with Cons.prems have "time_search cs = Some (g1, g2)"
      by simp
    from Cons.IH[OF this] obtain pre sep post where
      "cs = pre @ (g1 @ sep # g2) @ post" "clock_fields (g1 @ sep # g2) = Some (g1, g2)"
      by blast
    then have "c # cs = (c # pre) @ (g1 @ sep # g2) @ post
        \<and> clock_fields (g1 @ sep # g2) = Some (g1, g2)"
      by simp
    then show ?thesis by blast
  next
    case (Some m)
    with Cons.prems have "time_match_at (c # cs) = Some (g1, g2)"
      by simp
    from time_match_at_shape[OF this] obtain sep post where
      "c # cs = g1 @ sep # g2 @ post" "clock_fields (g1 @ sep # g2) = Some (g1, g2)"
      by blast
    then have "c # cs = [] @ (g1 @ sep # g2) @ post
        \<and> clock_fields (g1 @ sep # g2) = Some (g1, g2)"
      by simp
    then show ?thesis by blast
  qed
qed

lemma clock_fields_digits:
  "clock_fields t = Some (h, m) \<Longrightarrow>
     h \<noteq> [] \<and> m \<noteq> [] \<and> (\<forall>c \<in> set h. is_digit c) \<and> (\<forall>c \<in> set m. is_digit c)"
  by (induction t rule: clock_fields.induct) (auto split: if_splits)

lemma clock_fields_match:
  "clock_fields t = Some (h, m) \<Longrightarrow> time_search t = Some (h, m)"
  by (induction t rule: clock_fields.induct) (auto split: if_splits simp: digit_not_sep)

lemma clock_fields_nonempty: "clock_fields t = Some hm \<Longrightarrow> t \<noteq> []"
  by (cases t) auto

text \<open>
  On a text that is of the clock form as a whole the code and the specification agree,
  also where the hours or the minutes are out of range.
\<close>

lemma parseTime_on_clock_form:
  assumes "clock_fields s = Some (h, m)"
  shows "parseTime (Some s) = spec_parse_clock_time s"
proof -
  from clock_fields_digits[OF assms] have ph: "parseInt h = Some (int (dec_val h))"
    and pm: "parseInt m = Some (int (dec_val m))"
    by (simp_all add: parseInt_digits)
  show ?thesis
    using clock_fields_match[OF assms] clock_fields_nonempty[OF assms] assms
    by (simp add: parseTime_def spec_parse_clock_time_def truthy_def ph pm)
qed

text \<open>
  A value returned by \<^verbatim>\<open>parseTime\<close> is the value of a token of the clock form, in
  range, somewhere in the text.
\<close>

lemma parseTime_value_is_token:
  assumes "parseTime (Some s) = Some n"
  shows "\<exists>pre t post. s = pre @ t @ post \<and> spec_parse_clock_time t = Some n"
proof -
  from assms obtain g1 g2 where ts: "time_search s = Some (g1, g2)"
    by (auto simp: parseTime_def split: if_splits option.splits)
  from time_search_shape[OF ts] obtain pre sep post where
    s: "s = pre @ (g1 @ sep # g2) @ post"
    and f: "clock_fields (g1 @ sep # g2) = Some (g1, g2)"
    by blast
  from clock_fields_digits[OF f] have ph: "parseInt g1 = Some (int (dec_val g1))"
    and pm: "parseInt g2 = Some (int (dec_val g2))"
    by (simp_all add: parseInt_digits)
  from assms ts have "dec_val g1 \<le> 23 \<and> dec_val g2 \<le> 59
      \<and> n = int (dec_val g1) * 60 + int (dec_val g2)"
    by (auto simp: parseTime_def ph pm split: if_splits)
  then have "spec_parse_clock_time (g1 @ sep # g2) = Some n"
    by (simp add: spec_parse_clock_time_def f)
  with s show ?thesis
    by blast
qed

subsection \<open>Validation and aggregation\<close>

lemma foldl_plus:
  "foldl (\<lambda>sum e. sum + f e) a xs = (a::int) + sum_list (map f xs)"
  by (induction xs arbitrary: a) simp_all

text \<open>The \<^verbatim>\<open>reduce\<close> of the cross-page aggregator is the specification's sum.\<close>

lemma valid_minutes_spec: "valid_minutes scan = spec_valid_row_minutes scan"
  by (simp add: valid_minutes_def spec_valid_row_minutes_def foldl_plus COALESCE_def)

text \<open>The \<^verbatim>\<open>switch\<close> adds a page to the professional bucket exactly for the two tags.\<close>

lemma greenAdiMinutes_foldl:
  "greenAdiMinutes (foldl cumulative_body t scans) =
     greenAdiMinutes t + spec_professional_actual_minutes scans"
proof (induction scans arbitrary: t)
  case Nil
  then show ?case
    by (simp add: spec_professional_actual_minutes_def)
next
  case (Cons s scans)
  have "greenAdiMinutes (cumulative_body t s) =
     greenAdiMinutes t +
       (if scan_pageType s = ''GREEN_ADI'' \<or> scan_pageType s = ''ADI_STAMP''
        then spec_valid_row_minutes s else 0)"
    by (simp add: cumulative_body_def Let_def valid_minutes_spec)
  with Cons.IH[of "cumulative_body t s"] show ?case
    by (simp add: spec_professional_actual_minutes_def)
qed

text \<open>The loop validates the entries in order, one validated row for each.\<close>

lemma validatedEntries_foldl:
  "validatedEntries (foldl (loop_body now) st es) =
     validatedEntries st @ map (validate_entry now) es"
  by (induction es arbitrary: st) (simp_all add: loop_body_def)

lemma scan_entries_validateEntries:
  "scan_entries (validateEntries now x) = map (validate_entry now) (entries x)"
  by (simp add: validateEntries_def Let_def validatedEntries_foldl loop_init_def)

text \<open>
  The page total of the code: the computed duration of every row that has one, whether
  the row is valid or not.
\<close>

lemma acc_totalMinutes_foldl:
  "acc_totalMinutes (foldl (loop_body now) st es) =
     acc_totalMinutes st + sum_list (map (\<lambda>e. COALESCE (calculated_duration e) 0) es)"
proof (induction es arbitrary: st)
  case Nil
  then show ?case by simp
next
  case (Cons e es)
  have "acc_totalMinutes (loop_body now st e) =
          acc_totalMinutes st + COALESCE (calculated_duration e) 0"
    by (cases "calculated_duration e") (simp_all add: loop_body_def COALESCE_def)
  with Cons.IH[of "loop_body now st e"] show ?case
    by simp
qed

lemma totalMinutes_validateEntries:
  "totalMinutes (totals (validateEntries now x)) =
     sum_list (map (\<lambda>e. COALESCE (calculated_duration e) 0) (entries x))"
  by (simp add: validateEntries_def Let_def acc_totalMinutes_foldl loop_init_def)

text \<open>
  The odometer error of the code: pushed exactly when both readings are truthy (not
  \<^verbatim>\<open>null\<close> and not 0) and the finish is below the start.
\<close>

lemma odometer_error_elsewhere:
  "OdometerFinishLessThanStart \<notin> set (unclear_errors e)"
  "OdometerFinishLessThanStart \<notin> set (date_errors now e)"
  "OdometerFinishLessThanStart \<notin> set (time_errors e)"
  "OdometerFinishLessThanStart \<notin> set (duration_errors e)"
proof -
  show "OdometerFinishLessThanStart \<notin> set (unclear_errors e)"
    by (simp add: unclear_errors_def)
  show "OdometerFinishLessThanStart \<notin> set (date_errors now e)"
    by (cases "readable (date e)"; cases "parseDate (date e)") (simp_all add: date_errors_def)
  show "OdometerFinishLessThanStart \<notin> set (time_errors e)"
    by (simp add: time_errors_def)
  show "OdometerFinishLessThanStart \<notin> set (duration_errors e)"
    by (cases "calculated_duration e"; cases "readable (totalTime e)";
        cases "parseDuration (totalTime e)") (simp_all add: duration_errors_def)
qed

lemma odometer_error_iff:
  "OdometerFinishLessThanStart \<in> set (errors (validate_entry now e)) \<longleftrightarrow>
     truthy_num (odometerStart e) \<and> truthy_num (odometerFinish e)
       \<and> the (odometerFinish e) < the (odometerStart e)"
  by (simp add: validate_entry_def entry.defs entryErrors_def odometer_error_elsewhere
      odometer_errors_def)

text \<open>The \<^verbatim>\<open>durationMinutes\<close> of the code, with \<^verbatim>\<open>||\<close> written out.\<close>

lemma durationMinutes_validate_entry:
  "durationMinutes (validate_entry now e) =
     (case calculated_duration e of
        None \<Rightarrow> parseDuration (totalTime e)
      | Some d \<Rightarrow> if d = 0 then parseDuration (totalTime e) else Some d)"
  by (simp add: validate_entry_def entry.defs js_or_def)

section \<open>The claims\<close>

subsection \<open>Eligibility engine\<close>







text \<open>
  Claim C10. When \<open>licence_expiry_date\<close> is not NULL the engine stores the expiry date
  minus five years as \<open>licence_issue_date\<close> before it computes the age at issue and the
  pathway, which are those of the new issue date, and the issue date supplied with the
  record has no effect on the result; when \<open>licence_expiry_date\<close> is NULL the stored
  issue date is left as it is.
\<close>

theorem issue_date_from_expiry:
  "(\<forall>e. licence_expiry_date NEW = Some e \<longrightarrow>
      licence_issue_date (calculate_eligibility today NEW) = Some (add_months e (- 60))
    \<and> (\<forall>b. date_of_birth NEW = Some b \<longrightarrow>
          age_at_issue (calculate_eligibility today NEW)
            = Some (age_years (add_months e (- 60)) b)
        \<and> pathway (calculate_eligibility today NEW)
            = Some (if age_years (add_months e (- 60)) b < 25 then P1_RED else P2_GREEN))
    \<and> (\<forall>x. calculate_eligibility today (NEW\<lparr> licence_issue_date := x \<rparr>)
            = calculate_eligibility today NEW))
   \<and> (licence_expiry_date NEW = None \<longrightarrow>
        licence_issue_date (calculate_eligibility today NEW) = licence_issue_date NEW)"
  by (simp add: calculate_eligibility_def set_totals_def set_earliest_def set_pathway_def
      set_issue_date_def Let_def v_age_at_issue_def v_night_req_def split: option.splits)

text \<open>
  Claim C10 at \<open>student_a\<close> (expiry 29 February 2028, supplied issue date 1 January
  1990: the issue date becomes 28 February 2023, the age at issue 17) and at
  \<open>student_c\<close> (no expiry date: the issue date stays 1 July 2022).
\<close>

theorem issue_date_from_expiry_witness:
  "licence_expiry_date student_a = Some \<lparr>year = 2028, month = 2, day = 29\<rparr>
   \<and> licence_issue_date student_a = Some \<lparr>year = 1990, month = 1, day = 1\<rparr>
   \<and> licence_issue_date (calculate_eligibility date_a student_a)
       = Some \<lparr>year = 2023, month = 2, day = 28\<rparr>
   \<and> age_at_issue (calculate_eligibility date_a student_a) = Some 17
   \<and> pathway (calculate_eligibility date_a student_a) = Some P1_RED
   \<and> calculate_eligibility date_a (student_a\<lparr> licence_issue_date := None \<rparr>)
       = calculate_eligibility date_a student_a
   \<and> licence_expiry_date student_c = None
   \<and> licence_issue_date (calculate_eligibility date_a student_c)
       = Some \<lparr>year = 2022, month = 7, day = 1\<rparr>"
proof -
  have e: "licence_expiry_date student_a = Some \<lparr>year = 2028, month = 2, day = 29\<rparr>"
    "licence_issue_date student_a = Some \<lparr>year = 1990, month = 1, day = 1\<rparr>"
    "date_of_birth student_a = Some \<lparr>year = 2005, month = 6, day = 15\<rparr>"
    by (simp_all add: example_students)
  have m: "add_months \<lparr>year = 2028, month = 2, day = 29\<rparr> (- 60)
             = \<lparr>year = 2023, month = 2, day = 28\<rparr>"
    by (simp add: add_months_def c_div_def c_mod_def day_tab_def isleap_def)
  have a: "age_years \<lparr>year = 2023, month = 2, day = 28\<rparr> \<lparr>year = 2005, month = 6, day = 15\<rparr>
             = 17"
    by (simp add: age_years_def date_less_def)
  have c: "licence_expiry_date student_c = None"
    "licence_issue_date student_c = Some \<lparr>year = 2022, month = 7, day = 1\<rparr>"
    by (simp_all add: example_students)
  show ?thesis
    using issue_date_from_expiry[where NEW = student_a and today = date_a]
      issue_date_from_expiry[where NEW = student_c and today = date_a]
      e m a c
    by simp
qed

subsection \<open>The parsers\<close>

text \<open>
  Claim C3 (the code departs from it). \<^verbatim>\<open>parseDate\<close> does not fail on 31/02/2024: the
  Date constructor carries the day past the end of February into March, and the result
  is the Date of 2 March 2024, the same as for 2/3/2024. The second half of the claim
  holds: 5/3/24 is the Date of year 2024, month index 2 (March), day 5.
\<close>

theorem parseDate_rolls_over:
  "parseDate (Some ''31/02/2024'') = Some 1709337600000
   \<and> parseDate (Some ''2/3/2024'') = Some 1709337600000
   \<and> new_Date (Some 2024) (Some 2) (Some 2) = Some 1709337600000
   \<and> parseDate (Some ''5/3/24'') = new_Date (Some 2024) (Some 2) (Some 5)"
  by code_simp

text \<open>
  Claim C8 (the code departs from it). On a text of the clock form the code does what
  the claim says (\<open>parseTime_on_clock_form\<close>). The pattern of \<^verbatim>\<open>parseTime\<close> has no
  anchors, though, so the range check is made on the leftmost token inside the text and
  texts that are not of the clock form get a value instead of a failure: \<^verbatim>\<open>123:45\<close>
  gives 1425 (the token 23:45), \<^verbatim>\<open>10:300\<close> gives 630, \<^verbatim>\<open>9:30 pm\<close> gives 570 and
  \<^verbatim>\<open>9:30 10:45\<close> gives 570. \<^verbatim>\<open>25:00\<close> fails, as the claim says.
\<close>

theorem parseTime_matches_inside_text:
  "spec_parse_clock_time ''123:45'' = None \<and> parseTime (Some ''123:45'') = Some 1425
   \<and> spec_parse_clock_time ''10:300'' = None \<and> parseTime (Some ''10:300'') = Some 630
   \<and> spec_parse_clock_time ''9:30 pm'' = None \<and> parseTime (Some ''9:30 pm'') = Some 570
   \<and> spec_parse_clock_time ''9:30 10:45'' = None
   \<and> parseTime (Some ''9:30 10:45'') = Some 570
   \<and> spec_parse_clock_time ''25:00'' = None \<and> parseTime (Some ''25:00'') = None"
  by code_simp

subsection \<open>Row validation\<close>

text \<open>
  Claim C6. A row whose date, start time or finish time is the sentinel \<^verbatim>\<open>UNCLEAR\<close> is
  never valid, whatever its other fields and whatever the current time.
\<close>

theorem unclear_row_invalid:
  assumes "date e = Some ''UNCLEAR'' \<or> startTime e = Some ''UNCLEAR''
             \<or> finishTime e = Some ''UNCLEAR''"
  shows "\<not> isValid (validate_entry now e)"
  using assms
  by (auto simp: validate_entry_def entry.defs entryErrors_def unclear_errors_def UNCLEAR_def)

text \<open>Claim C6 at \<open>entry_a\<close>, whose date is illegible and whose times are sound.\<close>

theorem unclear_row_invalid_witness:
  "date entry_a = Some ''UNCLEAR'' \<and> calculated_duration entry_a = Some 60
   \<and> \<not> isValid (validate_entry now_a entry_a)"
proof -
  have d: "date entry_a = Some ''UNCLEAR''"
    by (simp add: entry_a_def row2h_def)
  have c: "calculated_duration entry_a = Some 60"
    by code_simp
  from unclear_row_invalid[where e = entry_a and now = now_a] d c show ?thesis
    by simp
qed

text \<open>
  Claim C7 (the code departs from it). \<^verbatim>\<open>calculatedDuration || parseDuration(...)\<close>
  takes a computed duration of 0 for a missing one: for \<open>entry_b\<close>, which starts and
  finishes at 10:00, the computed duration is 0 and \<^verbatim>\<open>durationMinutes\<close> is the recorded
  90; without a recorded total it is \<^verbatim>\<open>null\<close>. The claim gives 0 in both cases.
\<close>

theorem durationMinutes_zero_falls_back:
  "calculatedDuration (validate_entry now_a entry_b) = Some 0
   \<and> durationMinutes (validate_entry now_a entry_b) = Some 90
   \<and> calculatedDuration (validate_entry now_a (entry_b\<lparr> totalTime := None \<rparr>)) = Some 0
   \<and> durationMinutes (validate_entry now_a (entry_b\<lparr> totalTime := None \<rparr>)) = None"
  by code_simp

text \<open>
  Claim C9 (the code departs from it). The guard of the odometer check tests
  truthiness, so a reading of 0 counts as absent: \<open>entry_c\<close> has both readings, the
  finish (0) is below the start (15000), and the row gets no odometer error and is valid.
\<close>

theorem odometer_zero_reading_skipped:
  "odometerStart entry_c = Some 15000 \<and> odometerFinish entry_c = Some 0
   \<and> OdometerFinishLessThanStart \<notin> set (errors (validate_entry now_a entry_c))
   \<and> isValid (validate_entry now_a entry_c)"
  by code_simp

subsection \<open>Aggregation\<close>

text \<open>
  Claim C2 (the code departs from it). \<^verbatim>\<open>totalMinutes\<close> adds the computed duration of
  every row whose two times parse, valid or not. On \<open>page_adi\<close>, four valid two-hour
  rows and one invalid one-hour row, the page total is 540 minutes; the sum of
  \<^verbatim>\<open>durationMinutes\<close> over the valid rows is 480.
\<close>

theorem page_total_counts_invalid_rows:
  "map isValid (scan_entries (validateEntries now_a page_adi))
     = [True, True, True, True, False]
   \<and> map durationMinutes (scan_entries (validateEntries now_a page_adi))
     = [Some 120, Some 120, Some 120, Some 120, Some 60]
   \<and> totalMinutes (totals (validateEntries now_a page_adi)) = 540
   \<and> spec_valid_row_minutes (validateEntries now_a page_adi) = 480"
  by code_simp

text \<open>
  Claim C5. The professional credit of the cross-page aggregator: the actual hours are
  the professional minutes (the valid rows of the pages of the two professional types)
  over 60, the first-tier credit is \<open>min(actual, 10) * 3\<close>, the excess credit is
  \<open>max(0, actual - 10) * 1\<close>, and the total credit is their sum; 12 actual hours give
  30, 2 and 32.
\<close>

theorem professional_credit_rule:
  "actualHours (calculateCumulativeHours scans)
     = of_int (spec_professional_actual_minutes scans) / 60
   \<and> first10Credit (calculateCumulativeHours scans)
     = min (actualHours (calculateCumulativeHours scans)) 10 * 3
   \<and> extraCredit (calculateCumulativeHours scans)
     = max 0 (actualHours (calculateCumulativeHours scans) - 10) * 1
   \<and> creditHours (calculateCumulativeHours scans)
     = first10Credit (calculateCumulativeHours scans)
       + extraCredit (calculateCumulativeHours scans)
   \<and> (actualHours (calculateCumulativeHours scans) = 12 \<longrightarrow>
        first10Credit (calculateCumulativeHours scans) = 30
      \<and> extraCredit (calculateCumulativeHours scans) = 2
      \<and> creditHours (calculateCumulativeHours scans) = 32)"
  by (simp add: calculateCumulativeHours_def Let_def greenAdiMinutes_foldl cumulative_init_def)

text \<open>
  Claim C5 at \<open>scans_a\<close>: 480 valid minutes on a professional driving page and 240 on
  a stamp page, 12 hours in all.
\<close>

theorem professional_credit_rule_witness:
  "spec_professional_actual_minutes scans_a = 720
   \<and> actualHours (calculateCumulativeHours scans_a) = 12
   \<and> first10Credit (calculateCumulativeHours scans_a) = 30
   \<and> extraCredit (calculateCumulativeHours scans_a) = 2
   \<and> creditHours (calculateCumulativeHours scans_a) = 32"
proof -
  have m: "spec_professional_actual_minutes scans_a = 720"
    by code_simp
  from professional_credit_rule[where scans = scans_a] m show ?thesis
    by simp
qed

end
